theory Spec2Isabelle
  imports Complex_Main
begin

section \<open>Numbers\<close>

text \<open>
  The estimator computes on JavaScript numbers. A number is modelled as NaN, one of the
  two infinities, or a finite value; finite values are real numbers and arithmetic on
  them is exact. Rounding to binary64, overflow of finite results and the sign of zero
  are not part of the model. The only divisors in the program are the three tier prices,
  which come from the default settings or from \<^verbatim>\<open>parseFloat(v) || 0\<close> and so are
  never the negative zero.
\<close>

datatype number = NaN | NegInf | Fin real | PosInf

text \<open>The global \<^verbatim>\<open>isNaN\<close> on a number.\<close>

fun isNaN :: "number \<Rightarrow> bool" where
  "isNaN NaN = True"
| "isNaN _ = False"

text \<open>\<^verbatim>\<open>a <= b\<close>: false as soon as one side is NaN.\<close>

fun js_le :: "number \<Rightarrow> number \<Rightarrow> bool" where
  "js_le NaN _ = False"
| "js_le _ NaN = False"
| "js_le NegInf _ = True"
| "js_le _ PosInf = True"
| "js_le (Fin a) (Fin b) = (a \<le> b)"
| "js_le (Fin a) NegInf = False"
| "js_le PosInf (Fin b) = False"
| "js_le PosInf NegInf = False"

text \<open>\<^verbatim>\<open>a < b\<close>: false as soon as one side is NaN.\<close>

fun js_lt :: "number \<Rightarrow> number \<Rightarrow> bool" where
  "js_lt NaN _ = False"
| "js_lt _ NaN = False"
| "js_lt (Fin a) (Fin b) = (a < b)"
| "js_lt NegInf NegInf = False"
| "js_lt NegInf _ = True"
| "js_lt PosInf _ = False"
| "js_lt (Fin a) PosInf = True"
| "js_lt (Fin a) NegInf = False"

text \<open>\<^verbatim>\<open>a >= b\<close> and \<^verbatim>\<open>a > b\<close>.\<close>

definition js_ge :: "number \<Rightarrow> number \<Rightarrow> bool" where
  "js_ge a b = js_le b a"

definition js_gt :: "number \<Rightarrow> number \<Rightarrow> bool" where
  "js_gt a b = js_lt b a"

text \<open>\<^verbatim>\<open>Math.min\<close> and \<^verbatim>\<open>Math.max\<close> of two arguments: NaN if one argument is NaN.\<close>

definition Math_min :: "number \<Rightarrow> number \<Rightarrow> number" where
  "Math_min a b = (if isNaN a \<or> isNaN b then NaN else if js_le a b then a else b)"

definition Math_max :: "number \<Rightarrow> number \<Rightarrow> number" where
  "Math_max a b = (if isNaN a \<or> isNaN b then NaN else if js_le a b then b else a)"

text \<open>Unary minus, \<^verbatim>\<open>a + b\<close> and \<^verbatim>\<open>a - b\<close>. Opposite infinities add up to NaN.\<close>

fun js_neg :: "number \<Rightarrow> number" where
  "js_neg NaN = NaN"
| "js_neg NegInf = PosInf"
| "js_neg PosInf = NegInf"
| "js_neg (Fin a) = Fin (- a)"

fun js_add :: "number \<Rightarrow> number \<Rightarrow> number" where
  "js_add NaN _ = NaN"
| "js_add _ NaN = NaN"
| "js_add (Fin a) (Fin b) = Fin (a + b)"
| "js_add PosInf NegInf = NaN"
| "js_add NegInf PosInf = NaN"
| "js_add PosInf _ = PosInf"
| "js_add NegInf _ = NegInf"
| "js_add (Fin a) PosInf = PosInf"
| "js_add (Fin a) NegInf = NegInf"

definition js_sub :: "number \<Rightarrow> number \<Rightarrow> number" where
  "js_sub a b = js_add a (js_neg b)"

text \<open>
  \<^verbatim>\<open>a * b\<close>: an infinity times zero is NaN, otherwise an infinite factor gives the
  infinity of the product's sign.
\<close>

fun sign_of :: "number \<Rightarrow> int" where
  "sign_of NaN = 0"
| "sign_of NegInf = - 1"
| "sign_of PosInf = 1"
| "sign_of (Fin a) = (if a < 0 then - 1 else if a = 0 then 0 else 1)"

definition inf_of_sign :: "int \<Rightarrow> number" where
  "inf_of_sign s = (if s = 0 then NaN else if s < 0 then NegInf else PosInf)"

fun js_mul :: "number \<Rightarrow> number \<Rightarrow> number" where
  "js_mul NaN _ = NaN"
| "js_mul _ NaN = NaN"
| "js_mul (Fin a) (Fin b) = Fin (a * b)"
| "js_mul a b = inf_of_sign (sign_of a * sign_of b)"

text \<open>
  \<^verbatim>\<open>a / b\<close>: two infinities or two zeros give NaN, a finite value over an infinity is
  zero, a non-zero value over zero is the infinity of the dividend's sign, and an infinity
  over a finite value keeps or flips its sign with the divisor's (a zero divisor counts
  as positive).
\<close>

fun js_div :: "number \<Rightarrow> number \<Rightarrow> number" where
  "js_div NaN _ = NaN"
| "js_div _ NaN = NaN"
| "js_div (Fin a) (Fin b) = (if b = 0 then inf_of_sign (sign_of (Fin a)) else Fin (a / b))"
| "js_div (Fin a) _ = Fin 0"
| "js_div a (Fin b) = inf_of_sign (sign_of a * (if b < 0 then - 1 else 1))"
| "js_div _ _ = NaN"

section \<open>Types and constants\<close>

record GlobalSettings =
  daysPerMonth :: number
  priceT1 :: number
  priceT2 :: number
  priceT3 :: number

record TierConfig =
  threshold1 :: number
  threshold2 :: number

datatype MonthlyInputMode = KWH | WATTS | FCFA

text \<open>
  The fields of \<^verbatim>\<open>ApplianceRow\<close> carry the prefix \<open>ar_\<close> and those of the object
  returned by \<^verbatim>\<open>monthlyData\<close> the prefix \<open>md_\<close>, since \<^verbatim>\<open>kWh\<close> and \<^verbatim>\<open>cost\<close> are
  already fields of \<^verbatim>\<open>MonthlyBreakdown\<close>.
\<close>

record ApplianceRow =
  ar_hours :: number
  ar_kWh :: number
  ar_costT1 :: number
  ar_costT2 :: number
  ar_costT3 :: number

record MonthlyBreakdown =
  tier :: string
  kWh :: number
  price :: number
  cost :: number

record MonthlyData =
  md_kWh :: number
  md_cost :: number
  md_breakdown :: "MonthlyBreakdown list"

definition DEFAULT_SETTINGS :: GlobalSettings where
  "DEFAULT_SETTINGS =
     \<lparr> daysPerMonth = Fin 30, priceT1 = Fin 82, priceT2 = Fin (13649 / 100),
       priceT3 = Fin (15936 / 100) \<rparr>"

definition TIER_CONFIG :: TierConfig where
  "TIER_CONFIG = \<lparr> threshold1 = Fin 150, threshold2 = Fin 250 \<rparr>"

definition DEFAULT_WATTS :: number where
  "DEFAULT_WATTS = Fin 175"

definition DEFAULT_TOTAL_KWH :: number where
  "DEFAULT_TOTAL_KWH = Fin 550"

definition APPLIANCE_HOURS :: "number list" where
  "APPLIANCE_HOURS = [Fin 4, Fin 8, Fin 12, Fin 24]"

text \<open>The part of the component's state that the computations read.\<close>

record AppState =
  settings :: GlobalSettings
  monthlyInputMode :: MonthlyInputMode
  applianceWatts :: number
  totalKWhInput :: number
  monthlyWatts :: number
  monthlyHours :: number
  purchaseAmountFcfa :: number

text \<open>The initial state, and the state \<^verbatim>\<open>resetDefaults\<close> restores.\<close>

definition initialState :: AppState where
  "initialState =
     \<lparr> settings = DEFAULT_SETTINGS, monthlyInputMode = KWH,
       applianceWatts = DEFAULT_WATTS, totalKWhInput = DEFAULT_TOTAL_KWH,
       monthlyWatts = Fin 1000, monthlyHours = Fin 8, purchaseAmountFcfa = Fin 20000 \<rparr>"

section \<open>The computations\<close>

definition validateInput :: "number \<Rightarrow> bool \<Rightarrow> bool" where
  "validateInput val allowZero =
     (if isNaN val then False
      else if allowZero then js_ge val (Fin 0)
      else js_gt val (Fin 0))"

definition isSettingsValid :: "GlobalSettings \<Rightarrow> bool" where
  "isSettingsValid s =
     (validateInput (daysPerMonth s) False \<and>
      validateInput (priceT1 s) True \<and>
      validateInput (priceT2 s) True \<and>
      validateInput (priceT3 s) True)"

definition getBreakdownFromKWh :: "GlobalSettings \<Rightarrow> number \<Rightarrow> MonthlyBreakdown list" where
  "getBreakdownFromKWh s k =
     (let k1 = Math_min k (threshold1 TIER_CONFIG);
          k2 = Math_min (Math_max (js_sub k (threshold1 TIER_CONFIG)) (Fin 0))
                        (js_sub (threshold2 TIER_CONFIG) (threshold1 TIER_CONFIG));
          k3 = Math_max (js_sub k (threshold2 TIER_CONFIG)) (Fin 0)
      in [ \<lparr> tier = ''Tier 1 (0-150)'', kWh = k1, price = priceT1 s, cost = js_mul k1 (priceT1 s) \<rparr>,
           \<lparr> tier = ''Tier 2 (151-250)'', kWh = k2, price = priceT2 s, cost = js_mul k2 (priceT2 s) \<rparr>,
           \<lparr> tier = ''Tier 3 (>250)'', kWh = k3, price = priceT3 s, cost = js_mul k3 (priceT3 s) \<rparr> ])"

definition getKWhFromFcfa :: "GlobalSettings \<Rightarrow> number \<Rightarrow> number" where
  "getKWhFromFcfa s amount =
     (let maxCostT1 = js_mul (threshold1 TIER_CONFIG) (priceT1 s);
          maxKWhT2 = js_sub (threshold2 TIER_CONFIG) (threshold1 TIER_CONFIG);
          maxCostT2 = js_mul maxKWhT2 (priceT2 s)
      in if js_le amount maxCostT1 then js_div amount (priceT1 s)
         else if js_le amount (js_add maxCostT1 maxCostT2)
           then js_add (threshold1 TIER_CONFIG) (js_div (js_sub amount maxCostT1) (priceT2 s))
         else js_add (threshold2 TIER_CONFIG)
                (js_div (js_sub (js_sub amount maxCostT1) maxCostT2) (priceT3 s)))"

definition applianceRows :: "AppState \<Rightarrow> ApplianceRow list" where
  "applianceRows st =
     (if \<not> isSettingsValid (settings st) \<or> \<not> validateInput (applianceWatts st) True then []
      else map (\<lambda>hours.
             let k = js_mul (js_mul (js_div (applianceWatts st) (Fin 1000)) hours)
                            (daysPerMonth (settings st))
             in \<lparr> ar_hours = hours, ar_kWh = k,
                  ar_costT1 = js_mul k (priceT1 (settings st)),
                  ar_costT2 = js_mul k (priceT2 (settings st)),
                  ar_costT3 = js_mul k (priceT3 (settings st)) \<rparr>)
           APPLIANCE_HOURS)"

text \<open>\<^verbatim>\<open>breakdown.reduce((acc, b) => acc + b.cost, 0)\<close>, the total cost of a breakdown.\<close>

definition totalCost :: "MonthlyBreakdown list \<Rightarrow> number" where
  "totalCost breakdown = foldl (\<lambda>acc b. js_add acc (cost b)) (Fin 0) breakdown"

text \<open>
  \<^verbatim>\<open>monthlyData\<close>. The two local variables are assigned in the source's order; the
  validity of the settings is among the memo's dependencies and is not read by the body.
\<close>

definition monthlyData :: "AppState \<Rightarrow> MonthlyData" where
  "monthlyData st =
     (let effectiveKWh =
            (if monthlyInputMode st = KWH then totalKWhInput st
             else if monthlyInputMode st = WATTS
               then js_mul (js_mul (js_div (monthlyWatts st) (Fin 1000)) (monthlyHours st))
                           (daysPerMonth (settings st))
             else getKWhFromFcfa (settings st) (purchaseAmountFcfa st));
          breakdown = getBreakdownFromKWh (settings st) effectiveKWh;
          effectiveCost =
            (if monthlyInputMode st = FCFA then purchaseAmountFcfa st else totalCost breakdown)
      in \<lparr> md_kWh = effectiveKWh, md_cost = effectiveCost, md_breakdown = breakdown \<rparr>)"

section \<open>Auxiliary facts\<close>

lemmas bd_defs =
  getBreakdownFromKWh_def TIER_CONFIG_def Math_min_def Math_max_def js_sub_def Let_def

lemma validateInput_allowZero: "validateInput x True = js_ge x (Fin 0)"
  by (cases x) (simp_all add: validateInput_def js_ge_def)

lemma validateInput_positive: "validateInput x False = js_gt x (Fin 0)"
  by (cases x) (simp_all add: validateInput_def js_gt_def)

lemma totalCost_breakdown:
  "totalCost (getBreakdownFromKWh s k) =
     js_add (js_add (js_add (Fin 0) (js_mul (Math_min k (Fin 150)) (priceT1 s)))
        (js_mul (Math_min (Math_max (js_sub k (Fin 150)) (Fin 0)) (Fin 100)) (priceT2 s)))
        (js_mul (Math_max (js_sub k (Fin 250)) (Fin 0)) (priceT3 s))"
  by (simp add: totalCost_def getBreakdownFromKWh_def TIER_CONFIG_def Let_def js_sub_def)

text \<open>On finite prices and a finite energy the total cost is the usual three-band sum.\<close>

lemma totalCost_Fin:
  assumes "priceT1 s = Fin p1" "priceT2 s = Fin p2" "priceT3 s = Fin p3"
  shows "totalCost (getBreakdownFromKWh s (Fin e)) =
     Fin (min e 150 * p1 + min (max (e - 150) 0) 100 * p2 + max (e - 250) 0 * p3)"
  using assms
  by (simp add: totalCost_breakdown Math_min_def Math_max_def js_sub_def min_def max_def)



section \<open>The tier engine\<close>





text \<open>
  C3. An energy exactly at a threshold stays in the lower tier: 150 gives the slices
  150, 0, 0 and 250 gives 150, 100, 0; the energy 0 gives three zero slices.
\<close>

theorem breakdown_at_thresholds:
  "map kWh (getBreakdownFromKWh s (Fin 150)) = [Fin 150, Fin 0, Fin 0] \<and>
   map kWh (getBreakdownFromKWh s (Fin 250)) = [Fin 150, Fin 100, Fin 0] \<and>
   map kWh (getBreakdownFromKWh s (Fin 0)) = [Fin 0, Fin 0, Fin 0]"
  by (simp add: bd_defs)

text \<open>
  C4. For fixed finite tier prices \<open>\<ge> 0\<close>, the total cost of the breakdown does not
  decrease with the energy: for finite energies \<open>0 \<le> e1 \<le> e2\<close> the total cost at \<open>e1\<close>
  is at most the total cost at \<open>e2\<close>.
\<close>

theorem totalCost_monotone:
  assumes "0 \<le> p1" "0 \<le> p2" "0 \<le> p3" and "0 \<le> e1" "e1 \<le> e2"
  shows "js_le
     (totalCost (getBreakdownFromKWh
        \<lparr> daysPerMonth = d, priceT1 = Fin p1, priceT2 = Fin p2, priceT3 = Fin p3 \<rparr> (Fin e1)))
     (totalCost (getBreakdownFromKWh
        \<lparr> daysPerMonth = d, priceT1 = Fin p1, priceT2 = Fin p2, priceT3 = Fin p3 \<rparr> (Fin e2)))"
proof -
  have a: "min e1 150 * p1 \<le> min e2 150 * p1"
    using assms by (intro mult_right_mono) auto
  have b: "min (max (e1 - 150) 0) 100 * p2 \<le> min (max (e2 - 150) 0) 100 * p2"
    using assms by (intro mult_right_mono) auto
  have c: "max (e1 - 250) 0 * p3 \<le> max (e2 - 250) 0 * p3"
    using assms by (intro mult_right_mono) auto
  show ?thesis
    using a b c by (simp add: totalCost_Fin [of _ p1 p2 p3])
qed

theorem totalCost_monotone_witness:
  "(0::real) \<le> 82 \<and> (0::real) \<le> 13649 / 100 \<and> (0::real) \<le> 15936 / 100 \<and>
   (0::real) \<le> 100 \<and> (100::real) \<le> 400 \<and>
   js_le (totalCost (getBreakdownFromKWh DEFAULT_SETTINGS (Fin 100)))
         (totalCost (getBreakdownFromKWh DEFAULT_SETTINGS (Fin 400)))"
  using totalCost_monotone [of 82 "13649 / 100" "15936 / 100" 100 400 "Fin 30"]
  by (simp add: DEFAULT_SETTINGS_def)




section \<open>The mode resolver\<close>

text \<open>
  C6. In the Watts input mode the monthly energy is (power / 1000) times the hours times
  the days per month. For 175 W, 8 hours a day and 30 days this is 42 kWh, all of it in
  tier 1, at a cost of 42 times 82 = 3444 with the default tier 1 price.
\<close>

theorem watts_mode_energy:
  "md_kWh (monthlyData (st\<lparr>monthlyInputMode := WATTS\<rparr>)) =
     js_mul (js_mul (js_div (monthlyWatts st) (Fin 1000)) (monthlyHours st))
            (daysPerMonth (settings st)) \<and>
   md_kWh (monthlyData
      \<lparr> settings = \<lparr> daysPerMonth = Fin d, priceT1 = p1, priceT2 = p2, priceT3 = p3 \<rparr>,
        monthlyInputMode = WATTS, applianceWatts = aw, totalKWhInput = tk,
        monthlyWatts = Fin w, monthlyHours = Fin h, purchaseAmountFcfa = pa \<rparr>) =
     Fin (w / 1000 * h * d) \<and>
   monthlyData (initialState\<lparr>monthlyInputMode := WATTS, monthlyWatts := Fin 175,
                             monthlyHours := Fin 8\<rparr>) =
     \<lparr> md_kWh = Fin 42, md_cost = Fin 3444,
       md_breakdown =
         [ \<lparr> tier = ''Tier 1 (0-150)'', kWh = Fin 42, price = Fin 82, cost = Fin 3444 \<rparr>,
           \<lparr> tier = ''Tier 2 (151-250)'', kWh = Fin 0, price = Fin (13649 / 100),
             cost = Fin 0 \<rparr>,
           \<lparr> tier = ''Tier 3 (>250)'', kWh = Fin 0, price = Fin (15936 / 100),
             cost = Fin 0 \<rparr> ] \<rparr>"
  by (simp add: monthlyData_def initialState_def DEFAULT_SETTINGS_def bd_defs totalCost_def)

text \<open>
  C7. In the FCFA input mode the cost of \<^verbatim>\<open>monthlyData\<close> is the purchase amount that was
  entered, not a value recomputed from the breakdown; in the kWh and Watts modes it is
  the sum, from 0, of the costs of the three entries of the breakdown.
\<close>

theorem monthlyData_cost:
  "md_cost (monthlyData (st\<lparr>monthlyInputMode := FCFA\<rparr>)) = purchaseAmountFcfa st \<and>
   (\<exists>b1 b2 b3. md_breakdown (monthlyData (st\<lparr>monthlyInputMode := KWH\<rparr>)) = [b1, b2, b3] \<and>
      md_cost (monthlyData (st\<lparr>monthlyInputMode := KWH\<rparr>)) =
        js_add (js_add (js_add (Fin 0) (cost b1)) (cost b2)) (cost b3)) \<and>
   (\<exists>b1 b2 b3. md_breakdown (monthlyData (st\<lparr>monthlyInputMode := WATTS\<rparr>)) = [b1, b2, b3] \<and>
      md_cost (monthlyData (st\<lparr>monthlyInputMode := WATTS\<rparr>)) =
        js_add (js_add (js_add (Fin 0) (cost b1)) (cost b2)) (cost b3))"
  by (simp add: monthlyData_def Let_def totalCost_def getBreakdownFromKWh_def)

text \<open>
  C9, evaluated at a rate configuration with a negative tier 1 price, in the kWh mode with
  550 kWh entered. The settings fail validation, and \<^verbatim>\<open>monthlyData\<close> still returns the
  three rows of the breakdown, computed with the negative price.
\<close>

theorem monthlyData_invalid_settings:
  "\<not> isSettingsValid (DEFAULT_SETTINGS\<lparr>priceT1 := Fin (- 5)\<rparr>) \<and>
   monthlyData (initialState\<lparr>settings := DEFAULT_SETTINGS\<lparr>priceT1 := Fin (- 5)\<rparr>\<rparr>) =
     \<lparr> md_kWh = Fin 550, md_cost = Fin 60707,
       md_breakdown =
         [ \<lparr> tier = ''Tier 1 (0-150)'', kWh = Fin 150, price = Fin (- 5),
             cost = Fin (- 750) \<rparr>,
           \<lparr> tier = ''Tier 2 (151-250)'', kWh = Fin 100, price = Fin (13649 / 100),
             cost = Fin 13649 \<rparr>,
           \<lparr> tier = ''Tier 3 (>250)'', kWh = Fin 300, price = Fin (15936 / 100),
             cost = Fin 47808 \<rparr> ] \<rparr>"
  by (simp add: monthlyData_def initialState_def DEFAULT_SETTINGS_def bd_defs totalCost_def
      DEFAULT_TOTAL_KWH_def isSettingsValid_def validateInput_def js_ge_def js_gt_def)

section \<open>The scenario projector\<close>

text \<open>
  C8, as amended. The projector returns the empty list whenever the wattage or a field of
  the rate configuration is NaN or has the wrong sign (days per month not \<open>> 0\<close>, a price
  or the wattage not \<open>\<ge> 0\<close>; a comparison with NaN is false). Otherwise, \<open>+Infinity\<close>
  included, it returns one row for each of 4, 8, 12 and 24 hours, holding
  kWh = (watts / 1000) times the hours times the days per month and the three products
  of this kWh with the three tier prices.
\<close>

theorem applianceRows_gate:
  "(js_gt (daysPerMonth (settings st)) (Fin 0) \<and> js_ge (priceT1 (settings st)) (Fin 0) \<and>
    js_ge (priceT2 (settings st)) (Fin 0) \<and> js_ge (priceT3 (settings st)) (Fin 0) \<and>
    js_ge (applianceWatts st) (Fin 0) \<longrightarrow>
      applianceRows st =
        map (\<lambda>h. \<lparr> ar_hours = h,
               ar_kWh = js_mul (js_mul (js_div (applianceWatts st) (Fin 1000)) h)
                               (daysPerMonth (settings st)),
               ar_costT1 = js_mul (js_mul (js_mul (js_div (applianceWatts st) (Fin 1000)) h)
                               (daysPerMonth (settings st))) (priceT1 (settings st)),
               ar_costT2 = js_mul (js_mul (js_mul (js_div (applianceWatts st) (Fin 1000)) h)
                               (daysPerMonth (settings st))) (priceT2 (settings st)),
               ar_costT3 = js_mul (js_mul (js_mul (js_div (applianceWatts st) (Fin 1000)) h)
                               (daysPerMonth (settings st))) (priceT3 (settings st)) \<rparr>)
          [Fin 4, Fin 8, Fin 12, Fin 24]) \<and>
   (\<not> (js_gt (daysPerMonth (settings st)) (Fin 0) \<and> js_ge (priceT1 (settings st)) (Fin 0) \<and>
       js_ge (priceT2 (settings st)) (Fin 0) \<and> js_ge (priceT3 (settings st)) (Fin 0) \<and>
       js_ge (applianceWatts st) (Fin 0)) \<longrightarrow>
      applianceRows st = [])"
  by (simp add: applianceRows_def isSettingsValid_def validateInput_allowZero
      validateInput_positive APPLIANCE_HOURS_def Let_def)

theorem applianceRows_gate_witness:
  "js_gt (daysPerMonth (settings initialState)) (Fin 0) \<and>
   js_ge (priceT1 (settings initialState)) (Fin 0) \<and>
   js_ge (priceT2 (settings initialState)) (Fin 0) \<and>
   js_ge (priceT3 (settings initialState)) (Fin 0) \<and>
   js_ge (applianceWatts initialState) (Fin 0) \<and>
   applianceRows initialState =
     [ \<lparr> ar_hours = Fin 4, ar_kWh = Fin 21, ar_costT1 = Fin 1722,
         ar_costT2 = Fin (286629 / 100), ar_costT3 = Fin (334656 / 100) \<rparr>,
       \<lparr> ar_hours = Fin 8, ar_kWh = Fin 42, ar_costT1 = Fin 3444,
         ar_costT2 = Fin (573258 / 100), ar_costT3 = Fin (669312 / 100) \<rparr>,
       \<lparr> ar_hours = Fin 12, ar_kWh = Fin 63, ar_costT1 = Fin 5166,
         ar_costT2 = Fin (859887 / 100), ar_costT3 = Fin (1003968 / 100) \<rparr>,
       \<lparr> ar_hours = Fin 24, ar_kWh = Fin 126, ar_costT1 = Fin 10332,
         ar_costT2 = Fin (1719774 / 100), ar_costT3 = Fin (2007936 / 100) \<rparr> ] \<and>
   \<not> js_ge (applianceWatts (initialState\<lparr>applianceWatts := Fin (- 1)\<rparr>)) (Fin 0) \<and>
   applianceRows (initialState\<lparr>applianceWatts := Fin (- 1)\<rparr>) = []"
  using applianceRows_gate [of initialState]
    applianceRows_gate [of "initialState\<lparr>applianceWatts := Fin (- 1)\<rparr>"]
  by (simp add: initialState_def DEFAULT_SETTINGS_def DEFAULT_WATTS_def js_ge_def js_gt_def)

text \<open>
  C8 as stated fails on an infinite wattage: \<open>+Infinity\<close> is not a finite number, it passes
  the validation, and with the default settings the projector returns four rows whose
  energy is infinite.
\<close>

theorem applianceRows_infinite_watts:
  "\<not> (\<exists>r. applianceWatts (initialState\<lparr>applianceWatts := PosInf\<rparr>) = Fin r) \<and>
   applianceRows (initialState\<lparr>applianceWatts := PosInf\<rparr>) \<noteq> [] \<and>
   map ar_kWh (applianceRows (initialState\<lparr>applianceWatts := PosInf\<rparr>)) =
     [PosInf, PosInf, PosInf, PosInf]"
  by (simp add: applianceRows_def initialState_def isSettingsValid_def validateInput_def
      DEFAULT_SETTINGS_def js_ge_def js_gt_def APPLIANCE_HOURS_def inf_of_sign_def)

end
